theory Spec2Isabelle
  imports Main "HOL-Library.Product_Lexorder"
begin

section \<open>User service of the crash-game backend\<close>

text \<open>
  A shallow embedding of \<^verbatim>\<open>src/services/user-service.js\<close> and of the Redis message
  handler of \<^verbatim>\<open>src/index.js\<close>. Asynchronous functions are modelled by their effect on an
  explicit state; a rejected promise or a thrown exception is a value of \<open>js_error\<close>.
  A function that can throw returns a pair: \<open>None\<close> when it completed, \<open>Some e\<close> when it
  threw \<open>e\<close>, and the state it left behind in either case.
\<close>

subsection \<open>Errors, documents and the state\<close>

text \<open>
  \<open>Error msg\<close> is \<^verbatim>\<open>new Error(msg)\<close>; \<open>TypeError\<close> is what reading a property of
  \<^verbatim>\<open>null\<close> or \<^verbatim>\<open>undefined\<close> throws; \<open>SyntaxError\<close> is what \<^verbatim>\<open>JSON.parse\<close> throws;
  \<open>CastError\<close> is what a Mongoose query rejects with when the value given for \<^verbatim>\<open>_id\<close> cannot
  be cast to an ObjectId.
\<close>

datatype js_error = Error string | TypeError | SyntaxError | CastError

text \<open>
  The fields of a User document that the service reads or writes. \<open>uid\<close> is \<^verbatim>\<open>_id\<close>,
  \<open>date\<close> the registration time in epoch milliseconds, \<open>username = None\<close> a document
  without the field, \<open>bonus\<close> the value of \<^verbatim>\<open>bonus.name\<close>. Amounts are integers here (the
  source's numbers are doubles).
\<close>

record preferences =
  currency :: "string option"

record 'id user =
  uid :: 'id
  username :: "string option"
  amountWon :: int
  date :: int
  status :: string
  tosConsentedAt :: "string option"
  preferences :: preferences
  bonus :: "string option"

record award_data =
  award_type :: string
  total :: "nat option"
  award :: "int option"

datatype notification_event = EVENT_USER_AWARD | EVENT_USER_SET_CURRENCY

datatype 'id event_data =
    AwardData 'id "award_data option"
  | CurrencyData "string option"

text \<open>One call \<^verbatim>\<open>amqp.send(exchange, routingKey, JSON.stringify({...}))\<close>.\<close>

record 'id amqp_message =
  exchange :: string
  routingKey :: string
  event :: notification_event
  producer :: string
  producerId :: 'id
  data :: "'id event_data"
  broadcast :: "bool option"

text \<open>
  The state the service acts on: the User collection (in the store's natural order), the
  messages sent with \<^verbatim>\<open>amqp.send\<close>, the lines written with \<^verbatim>\<open>console.error\<close>, and the calls
  of \<^verbatim>\<open>walletUtil.transferBonus\<close> (amount, user).
\<close>

record 'id world =
  users :: "'id user list"
  amqp :: "'id amqp_message list"
  console :: "(string \<times> js_error) list"
  transfers :: "(int \<times> 'id) list"

text \<open>
  The value a caller passes as \<^verbatim>\<open>userId\<close>, as the store sees it: \<open>ObjectId i\<close> is a value
  that Mongoose casts to the id \<open>i\<close> (an ObjectId, or a string that names one); \<open>Nullish\<close>
  is \<^verbatim>\<open>undefined\<close> or \<^verbatim>\<open>null\<close>; \<open>Uncastable\<close> is any other value, which Mongoose cannot cast
  to an ObjectId (such as the string \<^verbatim>\<open>'nobody'\<close>). The service functions do not check
  their argument, and the message handler passes on whatever the message holds.
\<close>

datatype 'id id_arg = ObjectId 'id | Nullish | Uncastable

text \<open>
  \<^verbatim>\<open>User.findById(id)\<close>: the query rejects with a CastError when the value cannot be cast;
  for \<^verbatim>\<open>undefined\<close> or \<^verbatim>\<open>null\<close> it looks for the \<^verbatim>\<open>_id\<close> \<^verbatim>\<open>null\<close>, which no document has;
  otherwise it gives the document with that \<^verbatim>\<open>_id\<close>, or \<^verbatim>\<open>null\<close>.
\<close>

definition findById :: "'id user list \<Rightarrow> 'id id_arg \<Rightarrow> js_error + 'id user option" where
  "findById us a =
     (case a of
        Uncastable \<Rightarrow> Inl CastError
      | Nullish \<Rightarrow> Inr None
      | ObjectId i \<Rightarrow> Inr (find (\<lambda>u. uid u = i) us))"

text \<open>
  The object \<^verbatim>\<open>{ _id: userId }\<close> given where an id is expected: Mongoose casts it by its
  \<^verbatim>\<open>_id\<close> when that is truthy, and otherwise by the object's own \<^verbatim>\<open>toString()\<close>, which
  names no ObjectId.
\<close>

definition in_object :: "'id id_arg \<Rightarrow> 'id id_arg" where
  "in_object a = (case a of ObjectId i \<Rightarrow> ObjectId i | Nullish \<Rightarrow> Uncastable | Uncastable \<Rightarrow> Uncastable)"

text \<open>
  \<^verbatim>\<open>user.save()\<close> of a loaded document sends an update of the modified paths to the
  document with its \<^verbatim>\<open>_id\<close>; \<open>f\<close> sets those paths.
\<close>

definition updateOne :: "'id \<Rightarrow> ('id user \<Rightarrow> 'id user) \<Rightarrow> 'id user list \<Rightarrow> 'id user list" where
  "updateOne i f us = map (\<lambda>u. if uid u = i then f u else u) us"

definition amqp_send :: "'id amqp_message \<Rightarrow> 'id world \<Rightarrow> 'id world" where
  "amqp_send m w = w\<lparr>amqp := amqp w @ [m]\<rparr>"

definition console_error :: "string \<Rightarrow> js_error \<Rightarrow> 'id world \<Rightarrow> 'id world" where
  "console_error tag err w = w\<lparr>console := console w @ [(tag, err)]\<rparr>"

subsection \<open>Total win\<close>

text \<open>
  \<^verbatim>\<open>const INITIAL_LIQUIDITY = 5000n;\<close>
  \<^verbatim>\<open>exports.getTotalWin = (balance) => {
    const value = balance - INITIAL_LIQUIDITY;
    return value < 0n ? 0n : value;
  };\<close>
  BigInt values are unbounded integers, so they are \<open>int\<close>.
\<close>

definition INITIAL_LIQUIDITY :: int where
  "INITIAL_LIQUIDITY = 5000"

definition getTotalWin :: "int \<Rightarrow> int" where
  "getTotalWin balance =
     (let v = balance - INITIAL_LIQUIDITY in if v < 0 then 0 else v)"

subsection \<open>Per-user mutations\<close>

text \<open>
  \<^verbatim>\<open>exports.updateUserConsent = async (userId) => {
    const user = await User.findById(userId);
    if (!user) { throw new Error('NOT_FOUND'); }
    user.tosConsentedAt = new Date().toUTCString();
    return await user.save();
  };\<close>
  \<open>now\<close> is the string \<^verbatim>\<open>new Date().toUTCString()\<close>.
\<close>

definition updateUserConsent ::
  "string \<Rightarrow> 'id id_arg \<Rightarrow> 'id world \<Rightarrow> js_error option \<times> 'id world" where
  "updateUserConsent now userId w =
     (case findById (users w) userId of
        Inl err \<Rightarrow> (Some err, w)
      | Inr None \<Rightarrow> (Some (Error ''NOT_FOUND''), w)
      | Inr (Some user) \<Rightarrow>
          (None, w\<lparr>users := updateOne (uid user) (\<lambda>u. u\<lparr>tosConsentedAt := Some now\<rparr>)
                              (users w)\<rparr>))"

text \<open>
  \<^verbatim>\<open>exports.updateStatus = async (userId, status) => {
    let user = await User.findById(userId);
    if (user) { user.status = status; await user.save(); }
    else { throw new Error('User does not exist'); }
  };\<close>
\<close>

definition updateStatus ::
  "'id id_arg \<Rightarrow> string \<Rightarrow> 'id world \<Rightarrow> js_error option \<times> 'id world" where
  "updateStatus userId st w =
     (case findById (users w) userId of
        Inl err \<Rightarrow> (Some err, w)
      | Inr (Some user) \<Rightarrow>
          (None, w\<lparr>users := updateOne (uid user) (\<lambda>u. u\<lparr>status := st\<rparr>) (users w)\<rparr>)
      | Inr None \<Rightarrow> (Some (Error ''User does not exist''), w))"


definition array_includes :: "'a list \<Rightarrow> 'a \<Rightarrow> bool" where
  "array_includes xs x = (x \<in> set xs)"




text \<open>
  \<^verbatim>\<open>exports.increaseAmountWon = async (userId, amount) => {
    const userSession = await User.startSession();
    let user = null;
    try {
      await userSession.withTransaction(async () => {
        user = await User.findById({ _id: userId }, { phone: 1, amountWon: 1 }).exec();
        if (user) {
          user.amountWon += +amount;
          await user.save();
        }
      });
    } catch (err) { console.error(err); throw err; }
    finally { await userSession.endSession(); }
  };\<close>
  Neither the query nor the save is given the session (compare \<^verbatim>\<open>getUserById\<close>, which ends
  in \<^verbatim>\<open>.session(session)\<close>), so both run outside the transaction, as two separate
  operations of the store with an \<^verbatim>\<open>await\<close> after each. A call is therefore in one of four
  places: \<open>Called\<close>, before the read; \<open>Saving\<close>, after the read has found the user and the
  sum has been formed on the loaded copy, before the write of \<^verbatim>\<open>amountWon\<close> to the document
  with the user's id; \<open>Returned\<close>; and \<open>Rejected\<close>, when the read has failed: the callback
  rejects, \<^verbatim>\<open>withTransaction\<close> rejects with the same error, and the \<^verbatim>\<open>catch\<close> branch logs
  it and throws it again. \<open>amount\<close> is the number \<^verbatim>\<open>+amount\<close>. A connection to the store
  that breaks is not modelled.
\<close>

datatype 'id call = Called "'id id_arg" int | Saving 'id int | Returned | Rejected js_error

fun call_step :: "'id call \<Rightarrow> 'id user list \<Rightarrow> 'id call \<times> 'id user list" where
  "call_step (Called userId amount) us =
     (case findById us (in_object userId) of
        Inl err \<Rightarrow> (Rejected err, us)
      | Inr (Some user) \<Rightarrow> (Saving (uid user) (amountWon user + amount), us)
      | Inr None \<Rightarrow> (Returned, us))"
| "call_step (Saving i v) us = (Returned, updateOne i (\<lambda>u. u\<lparr>amountWon := v\<rparr>) us)"
| "call_step Returned us = (Returned, us)"
| "call_step (Rejected err) us = (Rejected err, us)"

text \<open>
  One call run alone, from the read to the end. \<^verbatim>\<open>console.error(err)\<close> writes the error
  with no text before it.
\<close>

definition increaseAmountWon ::
  "'id id_arg \<Rightarrow> int \<Rightarrow> 'id world \<Rightarrow> js_error option \<times> 'id world" where
  "increaseAmountWon userId amount w =
     (let (c1, us1) = call_step (Called userId amount) (users w);
          (c2, us2) = call_step c1 us1
      in case c2 of
           Rejected err \<Rightarrow> (Some err, console_error [] err (w\<lparr>users := us2\<rparr>))
         | _ \<Rightarrow> (None, w\<lparr>users := us2\<rparr>))"

text \<open>
  Calls in flight together: the schedule names, one after the other, the call whose next
  operation the store performs.
\<close>

fun run_schedule ::
  "nat list \<Rightarrow> 'id call list \<Rightarrow> 'id user list \<Rightarrow> 'id call list \<times> 'id user list" where
  "run_schedule [] cs us = (cs, us)"
| "run_schedule (k # ks) cs us =
     (if k < length cs
      then (let (c, us1) = call_step (cs ! k) us in run_schedule ks (cs[k := c]) us1)
      else run_schedule ks cs us)"

subsection \<open>Awards\<close>

text \<open>
  \<^verbatim>\<open>exports.mintUser = async (/*userId, amount*/) => { throw Error('Not supported'); };\<close>
\<close>

definition mintUser :: "'id \<Rightarrow> int \<Rightarrow> 'id world \<Rightarrow> js_error option \<times> 'id world" where
  "mintUser userId amount w = (Some (Error ''Not supported''), w)"

text \<open>
  \<^verbatim>\<open>exports.createUserAwardEvent = async ({ userId, awardData, broadcast = false }) => {
    if (awardData?.award) {
      await this.mintUser(userId, awardData.award).catch((err) => {
        console.error('award mintUser', err);
      });
    }
    amqp.send('universal_events', 'event.user_award',
      JSON.stringify({ event: notificationEvents.EVENT_USER_AWARD, producer: 'user',
        producerId: userId, data: { userId, awardData }, broadcast }));
  };\<close>
  \<^verbatim>\<open>awardData?.award\<close> is truthy for a number other than 0.
\<close>

definition award_message :: "'id \<Rightarrow> award_data option \<Rightarrow> bool \<Rightarrow> 'id amqp_message" where
  "award_message userId awardData bc =
     \<lparr>exchange = ''universal_events'', routingKey = ''event.user_award'',
      event = EVENT_USER_AWARD, producer = ''user'', producerId = userId,
      data = AwardData userId awardData, broadcast = Some bc\<rparr>"

definition createUserAwardEvent ::
  "'id \<Rightarrow> award_data option \<Rightarrow> bool \<Rightarrow> 'id world \<Rightarrow> js_error option \<times> 'id world" where
  "createUserAwardEvent userId awardData bc w =
     (let w1 =
        (case awardData of
           None \<Rightarrow> w
         | Some a \<Rightarrow>
             (case award a of
                None \<Rightarrow> w
              | Some n \<Rightarrow>
                  if n \<noteq> 0
                  then (case mintUser userId n w of
                          (Some err, w0) \<Rightarrow> console_error ''award mintUser'' err w0
                        | (None, w0) \<Rightarrow> w0)
                  else w))
      in (None, amqp_send (award_message userId awardData bc) w1))"

text \<open>
  \<^verbatim>\<open>exports.checkTotalBetsAward = async (userId) => {
    const awardData = { type: 'TOTAL_BETS_ABOVE_VALUE' };
    const totalUserBets = await getUserBetsAmount(userId).catch((err) => {
      console.error('getUserBetsAmount', err);
    });
    const total = (awardData.total = totalUserBets?.totalBets || 0);
    if ([5, 20, 50, 100, 150].includes(total)) {
      awardData.award = WFAIR_REWARDS.totalBets[total];
      awardData.total = total;
      await this.createUserAwardEvent({ userId, awardData }).catch((err) => {
        console.error('createUserAwardEvent', err);
      });
    }
  };\<close>
  The table \<^verbatim>\<open>WFAIR_REWARDS.totalBets\<close> (\<^verbatim>\<open>util/constants\<close>) and the statistics service's
  \<^verbatim>\<open>getUserBetsAmount\<close> are parameters: \<open>totalBets\<close> maps a milestone to its reward,
  \<open>getUserBetsAmount\<close> fails or gives the user's \<^verbatim>\<open>totalBets\<close>, if any.
\<close>

definition checkTotalBetsAward ::
  "(nat \<Rightarrow> int option) \<Rightarrow> ('id \<Rightarrow> js_error + nat option) \<Rightarrow> 'id \<Rightarrow> 'id world \<Rightarrow> 'id world" where
  "checkTotalBetsAward totalBets getUserBetsAmount userId w =
     (let (totalUserBets, w1) =
            (case getUserBetsAmount userId of
               Inl err \<Rightarrow> (None, console_error ''getUserBetsAmount'' err w)
             | Inr r \<Rightarrow> (r, w));
          n = (case totalUserBets of Some t \<Rightarrow> t | None \<Rightarrow> 0)
      in if array_includes [5, 20, 50, 100, 150] n
         then (case createUserAwardEvent userId
                      (Some \<lparr>award_type = ''TOTAL_BETS_ABOVE_VALUE'', total = Some n,
                             award = totalBets n\<rparr>) False w1 of
                 (Some err, w2) \<Rightarrow> console_error ''createUserAwardEvent'' err w2
               | (None, w2) \<Rightarrow> w2)
         else w1)"

subsection \<open>Ranking\<close>

text \<open>
  \<^verbatim>\<open>exports.getRankByUserId = async (userId) => {
    const users = await User.find({ username: { $exists: true } })
      .sort({ amountWon: -1, date: -1 })
      .select({ _id: 1, amountWon: 1 })
      .exec();
    let lastDiffAmount = 0;
    let ranking = { rank: 0, toNextRank: 0 };
    for (let i = 0; i < users.length; i++) {
      if (users[i]._id == userId) {
        const rank = i + 1;
        const toNextRank = i == 0 ? 0 : lastDiffAmount - users[i].amountWon;
        ranking = { rank, toNextRank };
      }
      if (lastDiffAmount == 0 || lastDiffAmount != users[i].amountWon) {
        lastDiffAmount = users[i].amountWon;
      }
    }
    return ranking;
  };\<close>
  The query is \<open>ranked_users\<close>: the documents that have a username, by \<open>amountWon\<close>
  descending and then by \<open>date\<close> descending. Documents equal in both keep the store's order
  here (the store does not fix their order). \<^verbatim>\<open>users[i]._id == userId\<close> compares the id with
  the argument, and is equality of ids here.
\<close>

record ranking =
  rank :: nat
  toNextRank :: int

definition ranked_users :: "'id user list \<Rightarrow> 'id user list" where
  "ranked_users us =
     sort_key (\<lambda>u. (- amountWon u, - date u)) (filter (\<lambda>u. username u \<noteq> None) us)"

fun rank_loop :: "'id \<Rightarrow> 'id user list \<Rightarrow> nat \<Rightarrow> int \<Rightarrow> ranking \<Rightarrow> ranking" where
  "rank_loop userId [] i lastDiffAmount r = r"
| "rank_loop userId (u # us) i lastDiffAmount r =
     rank_loop userId us (i + 1)
       (if lastDiffAmount = 0 \<or> lastDiffAmount \<noteq> amountWon u then amountWon u
        else lastDiffAmount)
       (if uid u = userId
        then \<lparr>rank = i + 1,
              toNextRank = (if i = 0 then 0 else lastDiffAmount - amountWon u)\<rparr>
        else r)"

definition getRankByUserId :: "'id user list \<Rightarrow> 'id \<Rightarrow> ranking" where
  "getRankByUserId us userId =
     rank_loop userId (ranked_users us) 0 0 \<lparr>rank = 0, toNextRank = 0\<rparr>"

subsection \<open>Registration bonus\<close>

text \<open>
  \<^verbatim>\<open>BONUS_TYPES.LAUNCH_1k_500\<close> (\<^verbatim>\<open>util/constants\<close>) is a parameter: its \<^verbatim>\<open>type\<close>, its
  \<^verbatim>\<open>endDate\<close> as epoch milliseconds and its \<^verbatim>\<open>amount\<close>.
\<close>

record bonus_type =
  bonusType :: string
  endDate :: int
  bonusAmount :: int

text \<open>
  Modelled from the spec: \<^verbatim>\<open>walletUtil.transferBonus(amount, userId)\<close> of \<^verbatim>\<open>util/wallet\<close>, which
  is not among the sources. The spec's data model gives a user an optional bonus marker
  recording which promotional bonus was granted, and the allocator counts the users that
  carry it; so the grant is recorded as a transfer and marks the user.
\<close>

definition transferBonus :: "bonus_type \<Rightarrow> int \<Rightarrow> 'id \<Rightarrow> 'id world \<Rightarrow> 'id world" where
  "transferBonus cfg amt userId w =
     w\<lparr>transfers := transfers w @ [(amt, userId)],
       users := updateOne userId (\<lambda>u. u\<lparr>bonus := Some (bonusType cfg)\<rparr>) (users w)\<rparr>"

text \<open>
  \<^verbatim>\<open>/*** create user bonus for first 1000 users ... */
  exports.checkUserRegistrationBonus = async (userId) => {
    const bonusValidUntil = BONUS_TYPES.LAUNCH_1k_500.endDate;
    const now = new Date();
    const validUntil = new Date(bonusValidUntil);
    //skip check when bonus period is over
    if(validUntil < now) { return; }
    const totalUsers = 1000;
    const alreadyRegistered = await User.find({ 'bonus.name': BONUS_TYPES.LAUNCH_1k_500.type },
      {_id: 1}, { sort: { date: -1 } });
    if (alreadyRegistered.length <= totalUsers) {
      await walletUtil.transferBonus(BONUS_TYPES.LAUNCH_1k_500.amount, userId);
    }
  };\<close>
  \<open>now\<close> is the time of the call in epoch milliseconds.
\<close>

definition totalUsers :: nat where
  "totalUsers = 1000"

definition checkUserRegistrationBonus ::
  "bonus_type \<Rightarrow> int \<Rightarrow> 'id \<Rightarrow> 'id world \<Rightarrow> 'id world" where
  "checkUserRegistrationBonus cfg now userId w =
     (if endDate cfg < now then w
      else (let alreadyRegistered = filter (\<lambda>u. bonus u = Some (bonusType cfg)) (users w)
            in if length alreadyRegistered \<le> totalUsers
               then transferBonus cfg (bonusAmount cfg) userId w
               else w))"

subsection \<open>JSON.parse\<close>

text \<open>
  The handler of \<^verbatim>\<open>src/index.js\<close> decodes each message with the runtime's \<^verbatim>\<open>JSON.parse\<close>.
  This is a model of that built-in after the JSON grammar (ECMA-404): it yields the decoded
  value, or fails where \<^verbatim>\<open>JSON.parse\<close> throws a \<^verbatim>\<open>SyntaxError\<close>. A JavaScript string is the
  list of its UTF-16 code units. A number keeps its text: the handler never computes with it.
  An object keeps its members in the order of the text.
\<close>

type_synonym js_string = "nat list"

definition js :: "string \<Rightarrow> js_string" where
  "js s = map of_char s"

datatype json =
    JNull
  | JBool bool
  | JNumber js_string
  | JString js_string
  | JArray "json list"
  | JObject "(js_string \<times> json) list"

datatype token =
    TLBrace | TRBrace | TLBracket | TRBracket | TColon | TComma
  | TString js_string
  | TScalar json

text \<open>Whitespace is space, tab, line feed and carriage return.\<close>

definition is_ws :: "nat \<Rightarrow> bool" where
  "is_ws c = (c = 32 \<or> c = 9 \<or> c = 10 \<or> c = 13)"

definition is_digit :: "nat \<Rightarrow> bool" where
  "is_digit c = (48 \<le> c \<and> c \<le> 57)"

definition is_hex :: "nat \<Rightarrow> bool" where
  "is_hex c = (is_digit c \<or> (65 \<le> c \<and> c \<le> 70) \<or> (97 \<le> c \<and> c \<le> 102))"

definition hex_val :: "nat \<Rightarrow> nat" where
  "hex_val c = (if is_digit c then c - 48 else if c \<le> 70 then c - 55 else c - 87)"

text \<open>
  The characters of numbers and of the literals \<^verbatim>\<open>true\<close>, \<^verbatim>\<open>false\<close>, \<^verbatim>\<open>null\<close>: digits, letters,
  \<^verbatim>\<open>+\<close>, \<^verbatim>\<open>-\<close> and \<^verbatim>\<open>.\<close>. A maximal run of them is one word; two values are never adjacent in
  a JSON text, so a run that is not a single number or literal is a syntax error.
\<close>

definition is_word_char :: "nat \<Rightarrow> bool" where
  "is_word_char c =
     (is_digit c \<or> c = 43 \<or> c = 45 \<or> c = 46 \<or> (65 \<le> c \<and> c \<le> 90) \<or> (97 \<le> c \<and> c \<le> 122))"

definition punctuation :: "nat \<Rightarrow> token option" where
  "punctuation c =
     (if c = 123 then Some TLBrace else if c = 125 then Some TRBrace
      else if c = 91 then Some TLBracket else if c = 93 then Some TRBracket
      else if c = 58 then Some TColon else if c = 44 then Some TComma
      else None)"

text \<open>One or more digits, and what follows them.\<close>

definition digits1 :: "js_string \<Rightarrow> js_string option" where
  "digits1 cs = (if takeWhile is_digit cs = [] then None else Some (dropWhile is_digit cs))"

text \<open>An optional exponent: \<^verbatim>\<open>e\<close> or \<^verbatim>\<open>E\<close>, an optional sign, digits; then the end.\<close>

definition exponent_opt :: "js_string \<Rightarrow> bool" where
  "exponent_opt cs =
     (case cs of
        [] \<Rightarrow> True
      | c # r \<Rightarrow>
          if c = 101 \<or> c = 69
          then digits1 (case r of [] \<Rightarrow> [] | d # r1 \<Rightarrow> if d = 43 \<or> d = 45 then r1 else r) = Some []
          else False)"

text \<open>An optional fraction: \<^verbatim>\<open>.\<close> and digits; then the exponent.\<close>

definition fraction_opt :: "js_string \<Rightarrow> bool" where
  "fraction_opt cs =
     (case cs of
        [] \<Rightarrow> True
      | c # r \<Rightarrow>
          if c = 46 then (case digits1 r of None \<Rightarrow> False | Some r1 \<Rightarrow> exponent_opt r1)
          else exponent_opt cs)"

text \<open>A number: an optional \<^verbatim>\<open>-\<close>, then \<^verbatim>\<open>0\<close> or a digit from 1 to 9 with more digits.\<close>

definition is_number :: "js_string \<Rightarrow> bool" where
  "is_number cs =
     (case (case cs of [] \<Rightarrow> [] | c # r \<Rightarrow> if c = 45 then r else cs) of
        [] \<Rightarrow> False
      | d # r \<Rightarrow>
          if d = 48 then fraction_opt r
          else if 49 \<le> d \<and> d \<le> 57 then fraction_opt (dropWhile is_digit r)
          else False)"

definition word_token :: "js_string \<Rightarrow> token option" where
  "word_token w =
     (if w = js ''true'' then Some (TScalar (JBool True))
      else if w = js ''false'' then Some (TScalar (JBool False))
      else if w = js ''null'' then Some (TScalar JNull)
      else if is_number w then Some (TScalar (JNumber w))
      else None)"

text \<open>The character after a backslash in a string, but for \<^verbatim>\<open>u\<close>.\<close>

definition escape :: "nat \<Rightarrow> nat option" where
  "escape c =
     (if c = 34 \<or> c = 92 \<or> c = 47 then Some c
      else if c = 98 then Some 8 else if c = 102 then Some 12
      else if c = 110 then Some 10 else if c = 114 then Some 13
      else if c = 116 then Some 9 else None)"

datatype lex_state =
    Idle
  | InString js_string
  | InEscape js_string
  | InUnicode js_string "nat list"
  | InWord js_string

definition lex_idle :: "nat \<Rightarrow> token list \<Rightarrow> (lex_state \<times> token list) option" where
  "lex_idle c ts =
     (if is_ws c then Some (Idle, ts)
      else if c = 34 then Some (InString [], ts)
      else (case punctuation c of
              Some t \<Rightarrow> Some (Idle, ts @ [t])
            | None \<Rightarrow> if is_word_char c then Some (InWord [c], ts) else None))"

text \<open>A string must not hold a control character (below 32) unescaped.\<close>

definition lex_step :: "lex_state \<times> token list \<Rightarrow> nat \<Rightarrow> (lex_state \<times> token list) option" where
  "lex_step st c =
     (case st of
        (Idle, ts) \<Rightarrow> lex_idle c ts
      | (InString s, ts) \<Rightarrow>
          if c = 34 then Some (Idle, ts @ [TString s])
          else if c = 92 then Some (InEscape s, ts)
          else if c < 32 then None
          else Some (InString (s @ [c]), ts)
      | (InEscape s, ts) \<Rightarrow>
          if c = 117 then Some (InUnicode s [], ts)
          else (case escape c of Some d \<Rightarrow> Some (InString (s @ [d]), ts) | None \<Rightarrow> None)
      | (InUnicode s hs, ts) \<Rightarrow>
          if is_hex c
          then (let hs1 = hs @ [hex_val c]
                in if length hs1 = 4
                   then Some (InString (s @ [foldl (\<lambda>a h. 16 * a + h) 0 hs1]), ts)
                   else Some (InUnicode s hs1, ts))
          else None
      | (InWord w, ts) \<Rightarrow>
          if is_word_char c then Some (InWord (w @ [c]), ts)
          else (case word_token w of
                  None \<Rightarrow> None
                | Some t \<Rightarrow> lex_idle c (ts @ [t])))"

fun lex_all :: "lex_state \<times> token list \<Rightarrow> js_string \<Rightarrow> token list option" where
  "lex_all st [] =
     (case st of
        (Idle, ts) \<Rightarrow> Some ts
      | (InWord w, ts) \<Rightarrow> (case word_token w of None \<Rightarrow> None | Some t \<Rightarrow> Some (ts @ [t]))
      | _ \<Rightarrow> None)"
| "lex_all st (c # cs) = (case lex_step st c of None \<Rightarrow> None | Some st1 \<Rightarrow> lex_all st1 cs)"

text \<open>
  The parser runs over the tokens with a stack of the arrays and objects that are open:
  \<open>FArray\<close> with the elements read, \<open>FObject\<close> with the members read, \<open>FMember\<close> with the
  members read and the key whose value is being read.
\<close>

datatype frame =
    FArray "json list"
  | FObject "(js_string \<times> json) list"
  | FMember "(js_string \<times> json) list" js_string

datatype mode =
    MValue | MValueOrEnd | MKey | MKeyOrEnd | MColon js_string | MAfter | MDone json

definition complete :: "json \<Rightarrow> frame list \<Rightarrow> (mode \<times> frame list) option" where
  "complete v st =
     (case st of
        [] \<Rightarrow> Some (MDone v, [])
      | FArray xs # r \<Rightarrow> Some (MAfter, FArray (xs @ [v]) # r)
      | FMember ms k # r \<Rightarrow> Some (MAfter, FObject (ms @ [(k, v)]) # r)
      | FObject ms # r \<Rightarrow> None)"

definition value_token :: "token \<Rightarrow> frame list \<Rightarrow> (mode \<times> frame list) option" where
  "value_token t st =
     (case t of
        TScalar v \<Rightarrow> complete v st
      | TString s \<Rightarrow> complete (JString s) st
      | TLBracket \<Rightarrow> Some (MValueOrEnd, FArray [] # st)
      | TLBrace \<Rightarrow> Some (MKeyOrEnd, FObject [] # st)
      | _ \<Rightarrow> None)"

definition close_frame :: "token \<Rightarrow> frame list \<Rightarrow> (mode \<times> frame list) option" where
  "close_frame t st =
     (case (t, st) of
        (TRBracket, FArray xs # r) \<Rightarrow> complete (JArray xs) r
      | (TRBrace, FObject ms # r) \<Rightarrow> complete (JObject ms) r
      | _ \<Rightarrow> None)"

definition parse_step :: "mode \<times> frame list \<Rightarrow> token \<Rightarrow> (mode \<times> frame list) option" where
  "parse_step ps t =
     (case ps of
        (MValue, st) \<Rightarrow> value_token t st
      | (MValueOrEnd, st) \<Rightarrow> if t = TRBracket then close_frame t st else value_token t st
      | (MKey, st) \<Rightarrow> (case t of TString k \<Rightarrow> Some (MColon k, st) | _ \<Rightarrow> None)
      | (MKeyOrEnd, st) \<Rightarrow>
          (case t of
             TString k \<Rightarrow> Some (MColon k, st)
           | TRBrace \<Rightarrow> close_frame t st
           | _ \<Rightarrow> None)
      | (MColon k, st) \<Rightarrow>
          (case (t, st) of
             (TColon, FObject ms # r) \<Rightarrow> Some (MValue, FMember ms k # r)
           | _ \<Rightarrow> None)
      | (MAfter, st) \<Rightarrow>
          (case t of
             TComma \<Rightarrow>
               (case st of
                  FArray xs # r \<Rightarrow> Some (MValue, st)
                | FObject ms # r \<Rightarrow> Some (MKey, st)
                | _ \<Rightarrow> None)
           | _ \<Rightarrow> close_frame t st)
      | (MDone v, st) \<Rightarrow> None)"

fun parse_all :: "mode \<times> frame list \<Rightarrow> token list \<Rightarrow> json option" where
  "parse_all ps [] = (case ps of (MDone v, st) \<Rightarrow> Some v | _ \<Rightarrow> None)"
| "parse_all ps (t # ts) = (case parse_step ps t of None \<Rightarrow> None | Some ps1 \<Rightarrow> parse_all ps1 ts)"

definition JSON_parse :: "js_string \<Rightarrow> js_error + json" where
  "JSON_parse text =
     (case lex_all (Idle, []) text of
        None \<Rightarrow> Inl SyntaxError
      | Some ts \<Rightarrow> (case parse_all (MValue, []) ts of None \<Rightarrow> Inl SyntaxError | Some v \<Rightarrow> Inr v))"

subsection \<open>The Redis message handler\<close>

text \<open>
  Reading a property of a decoded value, \<open>None\<close> being \<^verbatim>\<open>undefined\<close>: of an object, its last
  member with that key; of a boolean, a number, a string or an array, \<^verbatim>\<open>undefined\<close> (for the
  keys the handler reads: \<^verbatim>\<open>event\<close>, \<^verbatim>\<open>to\<close>, \<^verbatim>\<open>data\<close>, \<^verbatim>\<open>reward\<close>, none of them inherited).
  Reading a property of \<^verbatim>\<open>null\<close> or \<^verbatim>\<open>undefined\<close> throws a TypeError.
\<close>

definition field :: "json \<Rightarrow> js_string \<Rightarrow> json option" where
  "field v k = (case v of JObject ms \<Rightarrow> map_of (rev ms) k | _ \<Rightarrow> None)"

definition get_property :: "json option \<Rightarrow> js_string \<Rightarrow> js_error + json option" where
  "get_property v k =
     (case v of
        None \<Rightarrow> Inl TypeError
      | Some JNull \<Rightarrow> Inl TypeError
      | Some x \<Rightarrow> Inr (field x k))"

text \<open>
  \<^verbatim>\<open>subClient.on('message', (channel, message) => {
    console.log(`[REDIS] Incoming : ${message}`);
    const messageObj = JSON.parse(message);
    if (messageObj.event === 'CASINO_REWARD') {
      const userService = require('./services/user-service');
      userService.increaseAmountWon(messageObj.to, messageObj.data.reward);
    }
    io.of('/').to(messageObj.to).emit(messageObj.event, messageObj.data);
  });\<close>
  The handler has no \<^verbatim>\<open>try\<close>. What it does is the list of its effects, in order, and the
  exception it throws, if any. \<open>increaseAmountWon\<close> is an \<^verbatim>\<open>async\<close> function and its call is
  not awaited: the call returns a promise to the handler, and a rejection of that promise
  is not thrown in the handler.
\<close>

datatype router_effect =
    ConsoleLog js_string
  | CallIncreaseAmountWon "json option" "json option"
  | Emit "json option" "json option" "json option"

text \<open>
  socket.io's \<^verbatim>\<open>emit\<close>, of the server created with \<^verbatim>\<open>new Server(httpServer, {cors: ...})\<close>
  (version 3 or later): it begins with
  \<^verbatim>\<open>if (RESERVED_EVENTS.has(ev)) throw new Error(`"${String(ev)}" is a reserved event name`)\<close>
  and then hands the event and its argument to the sockets of the room. The event is
  reserved when it is a string of that set.
\<close>

definition RESERVED_EVENTS :: "string list" where
  "RESERVED_EVENTS =
     [''connect'', ''connect_error'', ''disconnect'', ''disconnecting'', ''newListener'',
      ''removeListener'']"

definition reserved_event :: "json option \<Rightarrow> string option" where
  "reserved_event ev =
     (case ev of
        Some (JString name) \<Rightarrow> find (\<lambda>r. js r = name) RESERVED_EVENTS
      | _ \<Rightarrow> None)"

definition io_emit ::
  "json option \<Rightarrow> json option \<Rightarrow> json option \<Rightarrow> router_effect list \<times> js_error option" where
  "io_emit room ev arg =
     (case reserved_event ev of
        Some r \<Rightarrow> ([], Some (Error ([CHR 0x22] @ r @ [CHR 0x22] @ '' is a reserved event name'')))
      | None \<Rightarrow> ([Emit room ev arg], None))"

definition on_message :: "js_string \<Rightarrow> js_string \<Rightarrow> router_effect list \<times> js_error option" where
  "on_message channel message =
     (let log = [ConsoleLog (js ''[REDIS] Incoming : '' @ message)] in
      case JSON_parse message of
        Inl e \<Rightarrow> (log, Some e)
      | Inr messageObj \<Rightarrow>
          (case get_property (Some messageObj) (js ''event'') of
             Inl e \<Rightarrow> (log, Some e)
           | Inr ev \<Rightarrow>
               (let (effects, err) =
                      (if ev = Some (JString (js ''CASINO_REWARD''))
                       then (case get_property (field messageObj (js ''data'')) (js ''reward'') of
                               Inl e \<Rightarrow> ([], Some e)
                             | Inr reward \<Rightarrow>
                                 ([CallIncreaseAmountWon (field messageObj (js ''to'')) reward], None))
                       else ([], None))
                in case err of
                     Some e \<Rightarrow> (log @ effects, Some e)
                   | None \<Rightarrow>
                       (let (emitted, thrown) =
                              io_emit (field messageObj (js ''to''))
                                (field messageObj (js ''event'')) (field messageObj (js ''data''))
                        in (log @ effects @ emitted, thrown)))))"

subsection \<open>Example data\<close>

text \<open>Concrete inputs at which the properties below are evaluated.\<close>

definition mk_user :: "'id \<Rightarrow> int \<Rightarrow> int \<Rightarrow> 'id user" where
  "mk_user i won registered =
     \<lparr>uid = i, username = Some ''player'', amountWon = won, date = registered,
      status = ''active'', tosConsentedAt = None,
      preferences = \<lparr>currency = Some ''WFAIR''\<rparr>, bonus = None\<rparr>"

text \<open>Users A, B, C, D with scores 100, 100, 50, 10; A registered before B.\<close>

definition leaderboard :: "string user list" where
  "leaderboard =
     [mk_user ''A'' 100 1, mk_user ''B'' 100 2, mk_user ''C'' 50 3, mk_user ''D'' 10 4]"

text \<open>Two ids: \<open>u1\<close> is the id of the one user of \<open>one_user\<close>, \<open>stranger\<close> is a well-formed id that no user has.\<close>

definition u1 :: string where
  "u1 = ''507f191e810c19729de860ea''"

definition stranger :: string where
  "stranger = ''507f1f77bcf86cd799439011''"

definition one_user :: "string world" where
  "one_user = \<lparr>users = [mk_user u1 0 1], amqp = [], console = [], transfers = []\<rparr>"

text \<open>\<open>n\<close> registered users, numbered from 0, none of them holding a bonus.\<close>

definition registrants :: "nat \<Rightarrow> nat world" where
  "registrants n =
     \<lparr>users = map (\<lambda>i. mk_user i 0 (int i)) [0..<n], amqp = [], console = [], transfers = []\<rparr>"

definition launch_bonus :: bonus_type where
  "launch_bonus = \<lparr>bonusType = ''LAUNCH_1k_500'', endDate = 1640995200000, bonusAmount = 500\<rparr>"

definition sample_rewards :: "nat \<Rightarrow> int option" where
  "sample_rewards = map_of [(5, 100), (20, 200), (50, 300), (100, 500), (150, 1000)]"

subsection \<open>Notions used in the statements\<close>

text \<open>The message \<open>checkTotalBetsAward\<close> publishes for the milestone \<open>n\<close>.\<close>

definition milestone_award :: "(nat \<Rightarrow> int option) \<Rightarrow> 'id \<Rightarrow> nat \<Rightarrow> 'id amqp_message" where
  "milestone_award totalBets userId n =
     award_message userId
       (Some \<lparr>award_type = ''TOTAL_BETS_ABOVE_VALUE'', total = Some n, award = totalBets n\<rparr>)
       False"

text \<open>The number of users that carry the bonus: the length of \<^verbatim>\<open>alreadyRegistered\<close>.\<close>

definition bonus_count :: "bonus_type \<Rightarrow> 'id world \<Rightarrow> nat" where
  "bonus_count cfg w = length (filter (\<lambda>u. bonus u = Some (bonusType cfg)) (users w))"

text \<open>The line the handler logs first.\<close>

definition incoming :: "js_string \<Rightarrow> router_effect" where
  "incoming message = ConsoleLog (js ''[REDIS] Incoming : '' @ message)"

section \<open>Properties\<close>

subsection \<open>Lemmas on the store\<close>

lemma findById_uid:
  "findById us (ObjectId i) = Inr (Some u) \<Longrightarrow> uid u = i"
  by (auto simp: findById_def find_Some_iff)

lemma findById_updateOne_same:
  "(\<And>u. uid (f u) = uid u) \<Longrightarrow> findById us (ObjectId i) = Inr r \<Longrightarrow>
     findById (updateOne i f us) (ObjectId i) = Inr (map_option f r)"
  by (induction us arbitrary: r) (auto simp: findById_def updateOne_def)

lemma findById_ObjectId:
  "findById us (in_object (ObjectId i)) = findById us (ObjectId i)"
  by (simp add: in_object_def)

lemma updateOne_absent:
  "i \<notin> uid ` set us \<Longrightarrow> updateOne i f us = us"
  by (induction us) (auto simp: updateOne_def)

lemma map_uid_updateOne:
  "(\<And>u. uid (f u) = uid u) \<Longrightarrow> map uid (updateOne i f us) = map uid us"
  by (simp add: updateOne_def)

subsection \<open>Total win\<close>

text \<open>
  C10: for every integer balance \<open>b\<close>, \<open>getTotalWin b\<close> is \<open>max (b - 5000) 0\<close> in exact integer
  arithmetic, and so it is never negative, also for a balance below the initial liquidity.
\<close>

theorem getTotalWin_max:
  "getTotalWin b = max (b - 5000) 0 \<and> 0 \<le> getTotalWin b"
  by (simp add: getTotalWin_def INITIAL_LIQUIDITY_def Let_def max_def)

subsection \<open>Ranking\<close>

lemma ranked_leaderboard:
  "ranked_users leaderboard =
     [mk_user ''B'' 100 2, mk_user ''A'' 100 1, mk_user ''C'' 50 3, mk_user ''D'' 10 4]"
  by (simp add: ranked_users_def leaderboard_def mk_user_def less_eq_prod_def)

lemma rank_loop_absent:
  "userId \<notin> uid ` set us \<Longrightarrow> rank_loop userId us i l r = r"
  by (induction us arbitrary: i l r) auto

text \<open>
  The loop on a list without repeated ids: the user at position \<open>j\<close> gets the rank
  \<open>i + j + 1\<close> (\<open>i\<close> being the index the loop starts with), and the difference between the
  amount of the user just before and the user's own.
\<close>

lemma rank_loop_at:
  "distinct (map uid us) \<Longrightarrow> j < length us \<Longrightarrow>
     rank_loop (uid (us ! j)) us i l r =
       \<lparr>rank = i + j + 1,
        toNextRank = (if i + j = 0 then 0
                      else (if j = 0 then l else amountWon (us ! (j - 1))) - amountWon (us ! j))\<rparr>"
proof (induction us arbitrary: i l r j)
  case Nil
  then show ?case by simp
next
  case (Cons u us)
  show ?case
  proof (cases j)
    case 0
    with Cons.prems show ?thesis by (simp add: rank_loop_absent)
  next
    case (Suc k)
    with Cons.prems have k: "k < length us" and d: "distinct (map uid us)"
      and ne: "uid u \<noteq> uid (us ! k)" by auto
    show ?thesis
      using Cons.IH [OF d k, of "i + 1"] ne Suc
      by (cases k) auto
  qed
qed

lemma ranked_users_sorted:
  "sorted_wrt (\<lambda>u v. amountWon v < amountWon u \<or> (amountWon v = amountWon u \<and> date v \<le> date u))
     (ranked_users us)"
proof -
  have "sorted (map (\<lambda>u. (- amountWon u, - date u)) (ranked_users us))"
    unfolding ranked_users_def by (rule sorted_sort_key)
  then have "sorted_wrt (\<lambda>u v. (- amountWon u, - date u) \<le> (- amountWon v, - date v))
      (ranked_users us)"
    by (simp add: sorted_wrt_map)
  then show ?thesis
    by (rule sorted_wrt_mono_rel [rotated]) (auto simp: less_eq_prod_def)
qed

lemma ranked_users_distinct:
  "distinct (map uid us) \<Longrightarrow> distinct (map uid (ranked_users us))"
  by (auto simp: ranked_users_def distinct_map intro: inj_on_subset distinct_filter)

lemma getRankByUserId_at:
  assumes "distinct (map uid us)" and "j < length (ranked_users us)"
  shows "getRankByUserId us (uid (ranked_users us ! j)) =
       \<lparr>rank = j + 1,
        toNextRank = (if j = 0 then 0
                      else amountWon (ranked_users us ! (j - 1)) - amountWon (ranked_users us ! j))\<rparr>"
  using rank_loop_at [OF ranked_users_distinct [OF assms(1)] assms(2),
      of 0 0 "\<lparr>rank = 0, toNextRank = 0\<rparr>"]
  by (simp add: getRankByUserId_def)

lemma getRankByUserId_leaderboard:
  "getRankByUserId leaderboard ''A'' = \<lparr>rank = 2, toNextRank = 0\<rparr>"
  "getRankByUserId leaderboard ''B'' = \<lparr>rank = 1, toNextRank = 0\<rparr>"
  "getRankByUserId leaderboard ''C'' = \<lparr>rank = 3, toNextRank = 50\<rparr>"
  "getRankByUserId leaderboard ''D'' = \<lparr>rank = 4, toNextRank = 40\<rparr>"
  by (simp_all add: getRankByUserId_def ranked_leaderboard mk_user_def)

text \<open>
  C1, as stated, fails: with A registered before B and equal scores, the sort by \<open>date\<close>
  descending puts B first, so the rank of A is 2 and the rank of B is 1.
\<close>

theorem getRankByUserId_tie_order:
  "rank (getRankByUserId leaderboard ''A'') = 2 \<and> rank (getRankByUserId leaderboard ''B'') = 1 \<and>
   rank (getRankByUserId leaderboard ''A'') \<noteq> 1"
  by (simp add: getRankByUserId_leaderboard)

text \<open>
  C1, amended: the users ranked are those with a username, ordered by \<open>amountWon\<close> descending
  and, for equal amounts, by registration date descending (the later registration first).
  When ids are not repeated, the user at position \<open>j\<close> of that order has rank \<open>j + 1\<close>; the
  first has \<open>toNextRank = 0\<close>, and a user whose predecessor has a different amount has as
  \<open>toNextRank\<close> the predecessor's amount minus the own. For A, B, C, D with scores
  100, 100, 50, 10 and A registered before B: B has rank 1, A rank 2, C rank 3 with
  \<open>toNextRank\<close> 50, D rank 4 with \<open>toNextRank\<close> 40.
\<close>

theorem getRankByUserId_ranking:
  "set (ranked_users us) = {u \<in> set us. username u \<noteq> None}
   \<and> length (ranked_users us) = length (filter (\<lambda>u. username u \<noteq> None) us)
   \<and> sorted_wrt (\<lambda>u v. amountWon v < amountWon u \<or> (amountWon v = amountWon u \<and> date v \<le> date u))
        (ranked_users us)
   \<and> (distinct (map uid us) \<and> j < length (ranked_users us) \<longrightarrow>
        rank (getRankByUserId us (uid (ranked_users us ! j))) = j + 1
        \<and> (j = 0 \<longrightarrow> toNextRank (getRankByUserId us (uid (ranked_users us ! j))) = 0)
        \<and> (0 < j \<and> amountWon (ranked_users us ! (j - 1)) \<noteq> amountWon (ranked_users us ! j) \<longrightarrow>
             toNextRank (getRankByUserId us (uid (ranked_users us ! j))) =
               amountWon (ranked_users us ! (j - 1)) - amountWon (ranked_users us ! j)))
   \<and> getRankByUserId leaderboard ''B'' = \<lparr>rank = 1, toNextRank = 0\<rparr>
   \<and> rank (getRankByUserId leaderboard ''A'') = 2
   \<and> getRankByUserId leaderboard ''C'' = \<lparr>rank = 3, toNextRank = 50\<rparr>
   \<and> getRankByUserId leaderboard ''D'' = \<lparr>rank = 4, toNextRank = 40\<rparr>"
proof -
  have f1: "set (ranked_users us) = {u \<in> set us. username u \<noteq> None}"
    by (simp add: ranked_users_def)
  have f2: "length (ranked_users us) = length (filter (\<lambda>u. username u \<noteq> None) us)"
    by (simp add: ranked_users_def)
  have f3: "distinct (map uid us) \<and> j < length (ranked_users us) \<longrightarrow>
        rank (getRankByUserId us (uid (ranked_users us ! j))) = j + 1
        \<and> (j = 0 \<longrightarrow> toNextRank (getRankByUserId us (uid (ranked_users us ! j))) = 0)
        \<and> (0 < j \<and> amountWon (ranked_users us ! (j - 1)) \<noteq> amountWon (ranked_users us ! j) \<longrightarrow>
             toNextRank (getRankByUserId us (uid (ranked_users us ! j))) =
               amountWon (ranked_users us ! (j - 1)) - amountWon (ranked_users us ! j))"
    using getRankByUserId_at [of us j] by auto
  have e: "rank (getRankByUserId leaderboard ''A'') = 2"
    by (simp add: getRankByUserId_leaderboard)
  show ?thesis
    by (intro conjI f1 f2 f3 e ranked_users_sorted getRankByUserId_leaderboard)
qed

theorem getRankByUserId_ranking_witness:
  "distinct (map uid leaderboard) \<and> 2 < length (ranked_users leaderboard) \<and>
   uid (ranked_users leaderboard ! 2) = ''C'' \<and>
   rank (getRankByUserId leaderboard ''C'') = 3 \<and>
   toNextRank (getRankByUserId leaderboard ''C'') = 50"
proof -
  have d: "distinct (map uid leaderboard)"
    by (simp add: leaderboard_def mk_user_def)
  have l: "2 < length (ranked_users leaderboard)"
    by (simp add: ranked_leaderboard)
  have z: "0 < (2::nat)"
    by simp
  have a: "amountWon (ranked_users leaderboard ! (2 - 1)) \<noteq> amountWon (ranked_users leaderboard ! 2)"
    by (simp add: ranked_leaderboard mk_user_def)
  have c: "uid (ranked_users leaderboard ! 2) = ''C''"
    by (simp add: ranked_leaderboard mk_user_def)
  have v: "amountWon (ranked_users leaderboard ! (2 - 1)) - amountWon (ranked_users leaderboard ! 2) = 50"
    by (simp add: ranked_leaderboard mk_user_def)
  from getRankByUserId_ranking [of leaderboard 2] d l z a
  have "rank (getRankByUserId leaderboard (uid (ranked_users leaderboard ! 2))) = 2 + 1
      \<and> toNextRank (getRankByUserId leaderboard (uid (ranked_users leaderboard ! 2))) =
          amountWon (ranked_users leaderboard ! (2 - 1)) - amountWon (ranked_users leaderboard ! 2)"
    by blast
  then have "rank (getRankByUserId leaderboard ''C'') = 2 + 1
      \<and> toNextRank (getRankByUserId leaderboard ''C'') = 50"
    by (simp only: c v)
  with d l c show ?thesis by simp
qed

subsection \<open>Per-user mutations\<close>







text \<open>
  C6, as stated, fails for \<open>increaseAmountWon\<close>: called with a well-formed id that no user
  has, it completes without an error and without a change.
\<close>

theorem increaseAmountWon_unknown_user_silent:
  "findById (users one_user) (ObjectId stranger) = Inr None \<and>
   increaseAmountWon (ObjectId stranger) 10 one_user = (None, one_user)"
  by (simp add: increaseAmountWon_def one_user_def findById_def mk_user_def in_object_def
      u1_def stranger_def)

text \<open>
  C6, amended: a \<open>userId\<close> identifies no existing user when it is a well-formed id that no
  user has, when it is \<^verbatim>\<open>undefined\<close> or \<^verbatim>\<open>null\<close>, or when it cannot be cast to an id.
  For a well-formed id that no user has, \<open>updateStatus\<close> throws \<^verbatim>\<open>User does not exist\<close> and
  \<open>updateUserConsent\<close> throws \<^verbatim>\<open>NOT_FOUND\<close>, both leaving the state unchanged, and
  \<open>increaseAmountWon\<close> completes without an error and leaves the state unchanged.
  For \<^verbatim>\<open>undefined\<close> or \<^verbatim>\<open>null\<close>, \<open>updateStatus\<close> and \<open>updateUserConsent\<close> throw the same two
  errors, and \<open>increaseAmountWon\<close>, which looks up \<^verbatim>\<open>{ _id: userId }\<close>, logs and throws the
  store's CastError. For a value that cannot be cast, all three throw the CastError
  (\<open>increaseAmountWon\<close> after logging it). No user is changed in any of these cases.
\<close>

theorem unknown_user_outcomes:
  "(findById (users w) (ObjectId i) = Inr None \<longrightarrow>
      updateStatus (ObjectId i) st w = (Some (Error ''User does not exist''), w) \<and>
      updateUserConsent now (ObjectId i) w = (Some (Error ''NOT_FOUND''), w) \<and>
      increaseAmountWon (ObjectId i) amount w = (None, w))
   \<and> updateStatus Nullish st w = (Some (Error ''User does not exist''), w)
   \<and> updateUserConsent now Nullish w = (Some (Error ''NOT_FOUND''), w)
   \<and> increaseAmountWon Nullish amount w =
        (Some CastError, w\<lparr>console := console w @ [([], CastError)]\<rparr>)
   \<and> updateStatus Uncastable st w = (Some CastError, w)
   \<and> updateUserConsent now Uncastable w = (Some CastError, w)
   \<and> increaseAmountWon Uncastable amount w =
        (Some CastError, w\<lparr>console := console w @ [([], CastError)]\<rparr>)"
proof (intro conjI impI)
  assume n: "findById (users w) (ObjectId i) = Inr None"
  then show "updateStatus (ObjectId i) st w = (Some (Error ''User does not exist''), w)"
    by (simp add: updateStatus_def)
  from n show "updateUserConsent now (ObjectId i) w = (Some (Error ''NOT_FOUND''), w)"
    by (simp add: updateUserConsent_def)
  from n show "increaseAmountWon (ObjectId i) amount w = (None, w)"
    by (simp add: increaseAmountWon_def findById_ObjectId)
next
  show "updateStatus Nullish st w = (Some (Error ''User does not exist''), w)"
    by (simp add: updateStatus_def findById_def)
  show "updateUserConsent now Nullish w = (Some (Error ''NOT_FOUND''), w)"
    by (simp add: updateUserConsent_def findById_def)
  show "increaseAmountWon Nullish amount w =
        (Some CastError, w\<lparr>console := console w @ [([], CastError)]\<rparr>)"
    by (simp add: increaseAmountWon_def findById_def in_object_def console_error_def)
  show "updateStatus Uncastable st w = (Some CastError, w)"
    by (simp add: updateStatus_def findById_def)
  show "updateUserConsent now Uncastable w = (Some CastError, w)"
    by (simp add: updateUserConsent_def findById_def)
  show "increaseAmountWon Uncastable amount w =
        (Some CastError, w\<lparr>console := console w @ [([], CastError)]\<rparr>)"
    by (simp add: increaseAmountWon_def findById_def in_object_def console_error_def)
qed

theorem unknown_user_outcomes_witness:
  "findById (users one_user) (ObjectId stranger) = Inr None \<and>
   updateStatus (ObjectId stranger) ''banned'' one_user =
     (Some (Error ''User does not exist''), one_user) \<and>
   updateUserConsent ''Tue, 02 Nov 2021 10:00:00 GMT'' (ObjectId stranger)
     one_user = (Some (Error ''NOT_FOUND''), one_user) \<and>
   increaseAmountWon (ObjectId stranger) 7 one_user = (None, one_user) \<and>
   increaseAmountWon Nullish 7 one_user =
     (Some CastError, one_user\<lparr>console := [([], CastError)]\<rparr>) \<and>
   updateStatus Uncastable ''banned'' one_user = (Some CastError, one_user)"
proof -
  have f: "findById (users one_user) (ObjectId stranger) = Inr None"
    by (simp add: one_user_def findById_def mk_user_def u1_def stranger_def)
  have c: "console one_user = []"
    by (simp add: one_user_def)
  note all = unknown_user_outcomes
         [where w = one_user and i = stranger
            and st = "''banned''" and now = "''Tue, 02 Nov 2021 10:00:00 GMT''" and amount = 7]
  from all f
  have absent:
    "updateStatus (ObjectId stranger) ''banned'' one_user =
       (Some (Error ''User does not exist''), one_user) \<and>
     updateUserConsent ''Tue, 02 Nov 2021 10:00:00 GMT'' (ObjectId stranger)
       one_user = (Some (Error ''NOT_FOUND''), one_user) \<and>
     increaseAmountWon (ObjectId stranger) 7 one_user = (None, one_user)"
    by blast
  from all
  have others:
    "increaseAmountWon Nullish 7 one_user =
       (Some CastError, one_user\<lparr>console := console one_user @ [([], CastError)]\<rparr>) \<and>
     updateStatus Uncastable ''banned'' one_user = (Some CastError, one_user)"
    by blast
  from f absent others show ?thesis
    by (simp add: c)
qed

text \<open>
  C5 at two calls in flight together, for the same user with \<open>amountWon = 0\<close>, adding 10 and
  5: when both reads come before both writes the result is 5, not 15 (the first update is
  lost); when the calls run one after the other the result is 15.
\<close>

theorem increaseAmountWon_lost_update:
  "run_schedule [0, 1, 0, 1] [Called (ObjectId u1) 10, Called (ObjectId u1) 5]
      (users one_user) =
     ([Returned, Returned], [(mk_user u1 0 1)\<lparr>amountWon := 5\<rparr>])
   \<and> run_schedule [0, 0, 1, 1] [Called (ObjectId u1) 10, Called (ObjectId u1) 5]
      (users one_user) =
     ([Returned, Returned], [(mk_user u1 0 1)\<lparr>amountWon := 15\<rparr>])"
  by (simp add: findById_def in_object_def updateOne_def one_user_def mk_user_def)

text \<open>Run alone on an existing user, a call adds its amount.\<close>

lemma increaseAmountWon_adds:
  "findById (users w) (ObjectId userId) = Inr (Some u) \<Longrightarrow>
     increaseAmountWon (ObjectId userId) d w =
       (None, w\<lparr>users := updateOne userId (\<lambda>v. v\<lparr>amountWon := amountWon u + d\<rparr>) (users w)\<rparr>)"
  using findById_uid [of "users w" userId u]
  by (simp add: increaseAmountWon_def findById_ObjectId)

text \<open>Calls run one after the other on an existing user add up.\<close>

lemma increaseAmountWon_sequential:
  "findById (users w) (ObjectId userId) = Inr (Some u) \<Longrightarrow>
     map_sum id (map_option amountWon)
       (findById (users (fold (\<lambda>d w. snd (increaseAmountWon (ObjectId userId) d w)) ds w))
          (ObjectId userId)) =
       Inr (Some (amountWon u + sum_list ds))"
proof (induction ds arbitrary: w u)
  case Nil
  then show ?case by simp
next
  case (Cons d ds)
  let ?w = "snd (increaseAmountWon (ObjectId userId) d w)"
  have "findById (updateOne userId (\<lambda>v. v\<lparr>amountWon := amountWon u + d\<rparr>) (users w))
          (ObjectId userId) =
        Inr (map_option (\<lambda>v. v\<lparr>amountWon := amountWon u + d\<rparr>) (Some u))"
    using Cons.prems by (intro findById_updateOne_same) simp_all
  then have "findById (users ?w) (ObjectId userId) = Inr (Some (u\<lparr>amountWon := amountWon u + d\<rparr>))"
    using Cons.prems by (simp add: increaseAmountWon_adds)
  from Cons.IH [OF this] show ?case by (simp add: add.assoc)
qed

subsection \<open>Awards\<close>

text \<open>
  C7: for an award other than 0, \<open>mintUser\<close> fails with \<^verbatim>\<open>Not supported\<close>, and
  \<open>createUserAwardEvent\<close> still completes: the failure is logged and the \<^verbatim>\<open>user_award\<close>
  message is published, nothing else changing.
\<close>

theorem createUserAwardEvent_mint_failure_nonfatal:
  "award a = Some n \<Longrightarrow> n \<noteq> 0 \<Longrightarrow>
     mintUser userId n w = (Some (Error ''Not supported''), w) \<and>
     createUserAwardEvent userId (Some a) bc w =
       (None, w\<lparr>amqp := amqp w @ [award_message userId (Some a) bc],
                console := console w @ [(''award mintUser'', Error ''Not supported'')]\<rparr>)"
  by (simp add: createUserAwardEvent_def mintUser_def console_error_def amqp_send_def)

theorem createUserAwardEvent_mint_failure_nonfatal_witness:
  "createUserAwardEvent ''u1''
      (Some \<lparr>award_type = ''TOTAL_BETS_ABOVE_VALUE'', total = Some 5, award = Some 100\<rparr>) False
      one_user =
     (None, one_user
        \<lparr>amqp := [award_message ''u1''
            (Some \<lparr>award_type = ''TOTAL_BETS_ABOVE_VALUE'', total = Some 5, award = Some 100\<rparr>)
            False],
         console := [(''award mintUser'', Error ''Not supported'')]\<rparr>)"
  using createUserAwardEvent_mint_failure_nonfatal
    [of "\<lparr>award_type = ''TOTAL_BETS_ABOVE_VALUE'', total = Some 5, award = Some 100\<rparr>" 100
        "''u1''" one_user False]
  by (simp add: one_user_def)

lemma checkTotalBetsAward_amqp:
  "getUserBetsAmount userId = Inr (Some n) \<Longrightarrow>
     amqp (checkTotalBetsAward totalBets getUserBetsAmount userId w) =
       (if n \<in> {5, 20, 50, 100, 150} then amqp w @ [milestone_award totalBets userId n]
        else amqp w)"
  by (simp add: checkTotalBetsAward_def array_includes_def createUserAwardEvent_def mintUser_def
      console_error_def amqp_send_def milestone_award_def split: option.splits)

text \<open>
  C4: when the user's lifetime count is \<open>n\<close>, \<open>checkTotalBetsAward\<close> publishes an award
  exactly when \<open>n\<close> is one of 5, 20, 50, 100, 150, and the award's amount is the entry of the
  reward table for \<open>n\<close>. Run once for each of the totals 4, 5, ..., 20, it publishes two
  awards: for 5 and for 20.
\<close>

theorem checkTotalBetsAward_exact_milestones:
  "(getUserBetsAmount userId = Inr (Some n) \<longrightarrow>
     amqp (checkTotalBetsAward totalBets getUserBetsAmount userId w) =
       (if n \<in> {5, 20, 50, 100, 150} then amqp w @ [milestone_award totalBets userId n]
        else amqp w))
   \<and> amqp (fold (\<lambda>n. checkTotalBetsAward totalBets (\<lambda>u. Inr (Some n)) userId)
              [4, 5, 6, 7, 8, 9, 10, 11, 12, 13, 14, 15, 16, 17, 18, 19, 20] w) =
       amqp w @ [milestone_award totalBets userId 5, milestone_award totalBets userId 20]"
  by (simp add: checkTotalBetsAward_amqp)

theorem checkTotalBetsAward_exact_milestones_witness:
  "amqp (checkTotalBetsAward sample_rewards (\<lambda>u. Inr (Some 20)) ''u1'' one_user) =
     [award_message ''u1''
        (Some \<lparr>award_type = ''TOTAL_BETS_ABOVE_VALUE'', total = Some 20, award = Some 200\<rparr>) False]
   \<and> amqp (checkTotalBetsAward sample_rewards (\<lambda>u. Inr (Some 21)) ''u1'' one_user) = []"
  using checkTotalBetsAward_exact_milestones
          [of "\<lambda>u. Inr (Some 20)" "''u1''" 20 sample_rewards one_user]
        checkTotalBetsAward_exact_milestones
          [of "\<lambda>u. Inr (Some 21)" "''u1''" 21 sample_rewards one_user]
  by (simp add: one_user_def milestone_award_def sample_rewards_def)

subsection \<open>Registration bonus\<close>

text \<open>
  C8: past the deadline \<open>checkUserRegistrationBonus\<close> changes nothing; otherwise it counts
  the users that carry the bonus and, when the count is at most 1000, transfers the bonus
  amount to the user, and when the count is above 1000 changes nothing.
\<close>

theorem checkUserRegistrationBonus_gate:
  "(endDate cfg < now \<longrightarrow> checkUserRegistrationBonus cfg now userId w = w)
   \<and> (\<not> endDate cfg < now \<and> bonus_count cfg w \<le> 1000 \<longrightarrow>
        checkUserRegistrationBonus cfg now userId w = transferBonus cfg (bonusAmount cfg) userId w
        \<and> transfers (checkUserRegistrationBonus cfg now userId w) =
            transfers w @ [(bonusAmount cfg, userId)])
   \<and> (\<not> endDate cfg < now \<and> 1000 < bonus_count cfg w \<longrightarrow>
        checkUserRegistrationBonus cfg now userId w = w)"
  by (simp add: checkUserRegistrationBonus_def totalUsers_def transferBonus_def bonus_count_def)

theorem checkUserRegistrationBonus_gate_witness:
  "endDate launch_bonus < 1640995200001
   \<and> checkUserRegistrationBonus launch_bonus 1640995200001 2 (registrants 3) = registrants 3
   \<and> \<not> endDate launch_bonus < 1640995200000
   \<and> bonus_count launch_bonus (registrants 3) = 0
   \<and> transfers (checkUserRegistrationBonus launch_bonus 1640995200000 2 (registrants 3)) =
        [(500, 2)]"
proof -
  have past: "endDate launch_bonus < 1640995200001"
    by (simp add: launch_bonus_def)
  have open_yet: "\<not> endDate launch_bonus < 1640995200000"
    by (simp add: launch_bonus_def)
  have none: "bonus_count launch_bonus (registrants 3) = 0"
    by (simp add: bonus_count_def registrants_def mk_user_def)
  from checkUserRegistrationBonus_gate [of launch_bonus 1640995200001 2 "registrants 3"] past
  have a: "checkUserRegistrationBonus launch_bonus 1640995200001 2 (registrants 3) = registrants 3"
    by blast
  have le: "bonus_count launch_bonus (registrants 3) \<le> 1000"
    by (simp add: none)
  from checkUserRegistrationBonus_gate [of launch_bonus 1640995200000 2 "registrants 3"]
    open_yet le
  have b: "transfers (checkUserRegistrationBonus launch_bonus 1640995200000 2 (registrants 3)) =
        transfers (registrants 3) @ [(bonusAmount launch_bonus, 2)]"
    by blast
  from past open_yet none a b show ?thesis
    by (simp add: registrants_def launch_bonus_def)
qed

lemma count_after_mark:
  "distinct (map uid us) \<Longrightarrow> i \<in> uid ` set us \<Longrightarrow>
   (\<forall>u \<in> set us. uid u = i \<longrightarrow> bonus u \<noteq> Some b) \<Longrightarrow>
     length (filter (\<lambda>u. bonus u = Some b) (updateOne i (\<lambda>u. u\<lparr>bonus := Some b\<rparr>) us)) =
       Suc (length (filter (\<lambda>u. bonus u = Some b) us))"
proof (induction us)
  case Nil
  then show ?case by simp
next
  case (Cons u us)
  show ?case
  proof (cases "uid u = i")
    case True
    with Cons.prems have "i \<notin> uid ` set us" by auto
    then have "updateOne i (\<lambda>u. u\<lparr>bonus := Some b\<rparr>) us = us" by (rule updateOne_absent)
    then have "updateOne i (\<lambda>u. u\<lparr>bonus := Some b\<rparr>) (u # us) = u\<lparr>bonus := Some b\<rparr> # us"
      using True by (simp add: updateOne_def)
    with Cons.prems True show ?thesis by simp
  next
    case False
    with Cons.prems have "i \<in> uid ` set us" by auto
    with Cons have
      "length (filter (\<lambda>u. bonus u = Some b) (updateOne i (\<lambda>u. u\<lparr>bonus := Some b\<rparr>) us)) =
         Suc (length (filter (\<lambda>u. bonus u = Some b) us))"
      by simp
    with False show ?thesis by (simp add: updateOne_def)
  qed
qed

lemma unmarked_elsewhere:
  "v \<in> set (updateOne i (\<lambda>u. u\<lparr>bonus := Some b\<rparr>) us) \<Longrightarrow> uid v \<noteq> i \<Longrightarrow> v \<in> set us"
  by (auto simp: updateOne_def split: if_splits)

lemma check_grants:
  assumes "\<not> endDate cfg < now" and "bonus_count cfg w \<le> 1000"
  shows "checkUserRegistrationBonus cfg now userId w = transferBonus cfg (bonusAmount cfg) userId w"
  using assms by (simp add: checkUserRegistrationBonus_def bonus_count_def totalUsers_def)

text \<open>
  Before the deadline, calls made one after the other for distinct users that do not carry
  the bonus are all granted as long as the count has not passed 1000: the grant that finds
  the count at 1000 is the 1001st.
\<close>

lemma sequential_grants:
  "\<not> endDate cfg < now \<Longrightarrow> distinct ids \<Longrightarrow> distinct (map uid (users w)) \<Longrightarrow>
   set ids \<subseteq> uid ` set (users w) \<Longrightarrow>
   (\<forall>u \<in> set (users w). uid u \<in> set ids \<longrightarrow> bonus u \<noteq> Some (bonusType cfg)) \<Longrightarrow>
   bonus_count cfg w + length ids \<le> 1001 \<Longrightarrow>
     length (transfers (fold (checkUserRegistrationBonus cfg now) ids w)) =
       length (transfers w) + length ids"
proof (induction ids arbitrary: w)
  case Nil
  then show ?case by simp
next
  case (Cons i ids)
  let ?w = "checkUserRegistrationBonus cfg now i w"
  have le: "bonus_count cfg w \<le> 1000" using Cons.prems by simp
  have step: "?w = transferBonus cfg (bonusAmount cfg) i w"
    using check_grants [OF Cons.prems(1) le] .
  have uids: "map uid (users ?w) = map uid (users w)"
    by (simp add: step transferBonus_def map_uid_updateOne)
  have cnt: "bonus_count cfg ?w = Suc (bonus_count cfg w)"
    using Cons.prems by (simp add: step transferBonus_def bonus_count_def count_after_mark)
  have tr: "length (transfers ?w) = Suc (length (transfers w))"
    by (simp add: step transferBonus_def)
  have others: "\<forall>u \<in> set (users ?w). uid u \<in> set ids \<longrightarrow> bonus u \<noteq> Some (bonusType cfg)"
  proof (intro ballI impI)
    fix u assume u: "u \<in> set (users ?w)" and m: "uid u \<in> set ids"
    from m Cons.prems(2) have "uid u \<noteq> i" by auto
    with u have "u \<in> set (users w)"
      by (auto simp: step transferBonus_def dest: unmarked_elsewhere)
    with m Cons.prems(5) show "bonus u \<noteq> Some (bonusType cfg)" by simp
  qed
  have sub: "set ids \<subseteq> uid ` set (users ?w)"
  proof -
    have "uid ` set (users ?w) = set (map uid (users ?w))" by simp
    also have "\<dots> = set (map uid (users w))" by (simp only: uids)
    finally show ?thesis using Cons.prems(4) by auto
  qed
  have d: "distinct (map uid (users ?w))" using Cons.prems(3) by (simp only: uids)
  have "length (transfers (fold (checkUserRegistrationBonus cfg now) ids ?w)) =
       length (transfers ?w) + length ids"
    using Cons.prems(2,6) cnt
    by (intro Cons.IH [OF Cons.prems(1) _ d sub others]) auto
  then show ?case by (simp add: tr)
qed

text \<open>
  C2 at 1001 users registering one after the other before the deadline, none of them
  carrying the bonus at the start: 1001 bonuses are granted, one more than \<open>totalUsers\<close>.
\<close>

theorem checkUserRegistrationBonus_overrun:
  "length (transfers (fold (checkUserRegistrationBonus launch_bonus 1637000000000) [0..<1001]
      (registrants 1001))) = 1001
   \<and> totalUsers = 1000"
proof -
  have 1: "\<not> endDate launch_bonus < 1637000000000"
    by (simp add: launch_bonus_def)
  have 2: "distinct (map uid (users (registrants 1001)))"
    by (simp add: registrants_def mk_user_def comp_def)
  have 3: "set [0..<1001] \<subseteq> uid ` set (users (registrants 1001))"
    by (auto simp: registrants_def mk_user_def image_iff)
  have 4: "\<forall>u \<in> set (users (registrants 1001)).
      uid u \<in> set [0..<1001] \<longrightarrow> bonus u \<noteq> Some (bonusType launch_bonus)"
    by (auto simp: registrants_def mk_user_def)
  have 5: "bonus_count launch_bonus (registrants 1001) + length [0..<1001] \<le> 1001"
    by (auto simp: bonus_count_def registrants_def mk_user_def filter_map comp_def)
  have "length (transfers (fold (checkUserRegistrationBonus launch_bonus 1637000000000) [0..<1001]
      (registrants 1001))) = length (transfers (registrants 1001)) + length [0..<1001]"
    using 1 _ 2 3 4 5 by (rule sequential_grants) simp
  then show ?thesis
    by (simp add: registrants_def totalUsers_def)
qed

subsection \<open>The Redis message handler\<close>

lemma JSON_parse_error:
  "JSON_parse message = Inl e \<Longrightarrow> e = SyntaxError"
  by (auto simp: JSON_parse_def split: option.splits)

lemma get_property_Some:
  "get_property (Some v) k = (if v = JNull then Inl TypeError else Inr (field v k))"
  by (cases v) (simp_all add: get_property_def)

lemma get_property_None:
  "get_property None k = Inl TypeError"
  by (simp add: get_property_def)

lemma field_JNull:
  "field JNull k = None"
  by (simp add: field_def)

lemma reserved_event_CASINO_REWARD:
  "reserved_event (Some (JString (js ''CASINO_REWARD''))) = None"
  by (simp add: reserved_event_def RESERVED_EVENTS_def js_def)

lemma inj_js:
  "js a = js b \<Longrightarrow> a = b"
  unfolding js_def by (rule injD [OF inj_mapI [OF inj_of_char]])

text \<open>The reserved events are the strings of the set, and \<open>reserved_event\<close> names the one.\<close>

lemma reserved_event_iff:
  "(reserved_event ev = Some r) = (r \<in> set RESERVED_EVENTS \<and> ev = Some (JString (js r)))"
proof
  assume a: "reserved_event ev = Some r"
  then obtain name where ev: "ev = Some (JString name)"
    and f: "find (\<lambda>r. js r = name) RESERVED_EVENTS = Some r"
    by (auto simp: reserved_event_def split: option.splits json.splits)
  from f have "r \<in> set RESERVED_EVENTS \<and> js r = name"
    by (auto simp: find_Some_iff)
  with ev show "r \<in> set RESERVED_EVENTS \<and> ev = Some (JString (js r))"
    by simp
next
  assume a: "r \<in> set RESERVED_EVENTS \<and> ev = Some (JString (js r))"
  then have "find (\<lambda>x. js x = js r) RESERVED_EVENTS \<noteq> None"
    by (auto simp: find_None_iff)
  then obtain x where x: "find (\<lambda>x. js x = js r) RESERVED_EVENTS = Some x"
    by auto
  then have "js x = js r"
    by (auto simp: find_Some_iff)
  then have "x = r"
    by (rule inj_js)
  with x a show "reserved_event ev = Some r"
    by (simp add: reserved_event_def)
qed

lemma parse_not_json:
  "JSON_parse (js ''not json'') = Inl SyntaxError"
  by code_simp

lemma parse_null:
  "JSON_parse (js ''null'') = Inr JNull"
  by code_simp

lemma parse_reward_without_data:
  \<open>JSON_parse (js ''{"event":"CASINO_REWARD","to":"u1"}'') =
     Inr (JObject [(js ''event'', JString (js ''CASINO_REWARD'')), (js ''to'', JString (js ''u1''))])\<close>
  by code_simp

lemma parse_reward:
  \<open>JSON_parse (js ''{"event":"CASINO_REWARD","to":"u1","data":{"reward":10}}'') =
     Inr (JObject [(js ''event'', JString (js ''CASINO_REWARD'')), (js ''to'', JString (js ''u1'')),
       (js ''data'', JObject [(js ''reward'', JNumber (js ''10''))])])\<close>
  by code_simp

lemma parse_disconnect:
  \<open>JSON_parse (js ''{"event":"disconnect","to":"u1","data":{}}'') =
     Inr (JObject [(js ''event'', JString (js ''disconnect'')), (js ''to'', JString (js ''u1'')),
       (js ''data'', JObject [])])\<close>
  by code_simp

lemma parse_bet_created:
  \<open>JSON_parse (js ''{"event":"BET_CREATED","to":"u1","data":{}}'') =
     Inr (JObject [(js ''event'', JString (js ''BET_CREATED'')), (js ''to'', JString (js ''u1'')),
       (js ''data'', JObject [])])\<close>
  by code_simp

text \<open>
  C3, as stated, fails: on the payload \<^verbatim>\<open>not json\<close> the handler logs the message and then
  throws the SyntaxError of \<^verbatim>\<open>JSON.parse\<close>.
\<close>

theorem on_message_not_json_throws:
  "on_message (js ''message'') (js ''not json'') =
     ([incoming (js ''not json'')], Some SyntaxError)"
  by (simp add: on_message_def parse_not_json incoming_def)

text \<open>
  C3, amended: the handler logs every message first. A payload that is not JSON makes it
  throw a SyntaxError; a payload that decodes to \<^verbatim>\<open>null\<close>, or to a \<^verbatim>\<open>CASINO_REWARD\<close> message
  whose \<^verbatim>\<open>data\<close> is absent or \<^verbatim>\<open>null\<close>, makes it throw a TypeError; a payload whose event is
  one of socket.io's reserved event names makes it throw the Error of \<^verbatim>\<open>emit\<close>; in these
  cases nothing is emitted. On every other payload the handler throws nothing: it calls
  \<open>increaseAmountWon\<close>, without awaiting it, when the event is \<^verbatim>\<open>CASINO_REWARD\<close>, and emits
  the event to the room \<^verbatim>\<open>to\<close>.
\<close>

theorem on_message_outcomes:
  "(JSON_parse message = Inl e \<longrightarrow>
      e = SyntaxError \<and> on_message channel message = ([incoming message], Some e))
   \<and> (JSON_parse message = Inr JNull \<longrightarrow>
      on_message channel message = ([incoming message], Some TypeError))
   \<and> (JSON_parse message = Inr v \<and>
       field v (js ''event'') = Some (JString (js ''CASINO_REWARD'')) \<and>
       (field v (js ''data'') = None \<or> field v (js ''data'') = Some JNull) \<longrightarrow>
      on_message channel message = ([incoming message], Some TypeError))
   \<and> (JSON_parse message = Inr v \<and>
       field v (js ''event'') = Some (JString (js ''CASINO_REWARD'')) \<and>
       field v (js ''data'') = Some d \<and> d \<noteq> JNull \<longrightarrow>
      on_message channel message =
        ([incoming message,
          CallIncreaseAmountWon (field v (js ''to'')) (field d (js ''reward'')),
          Emit (field v (js ''to'')) (field v (js ''event'')) (field v (js ''data''))], None))
   \<and> (JSON_parse message = Inr v \<and> r \<in> set RESERVED_EVENTS \<and>
       field v (js ''event'') = Some (JString (js r)) \<longrightarrow>
      on_message channel message =
        ([incoming message],
         Some (Error ([CHR 0x22] @ r @ [CHR 0x22] @ '' is a reserved event name''))))
   \<and> (JSON_parse message = Inr v \<and> v \<noteq> JNull \<and>
       field v (js ''event'') \<noteq> Some (JString (js ''CASINO_REWARD'')) \<and>
       (\<forall>r \<in> set RESERVED_EVENTS. field v (js ''event'') \<noteq> Some (JString (js r))) \<longrightarrow>
      on_message channel message =
        ([incoming message,
          Emit (field v (js ''to'')) (field v (js ''event'')) (field v (js ''data''))], None))"
proof (intro conjI impI)
  assume "JSON_parse message = Inl e"
  then show "e = SyntaxError" by (rule JSON_parse_error)
next
  assume "JSON_parse message = Inl e"
  then show "on_message channel message = ([incoming message], Some e)"
    by (simp add: on_message_def incoming_def)
next
  assume "JSON_parse message = Inr JNull"
  then show "on_message channel message = ([incoming message], Some TypeError)"
    by (simp add: on_message_def get_property_Some incoming_def)
next
  assume a: "JSON_parse message = Inr v \<and>
       field v (js ''event'') = Some (JString (js ''CASINO_REWARD'')) \<and>
       (field v (js ''data'') = None \<or> field v (js ''data'') = Some JNull)"
  then have "v \<noteq> JNull" by (auto simp: field_JNull)
  with a show "on_message channel message = ([incoming message], Some TypeError)"
    by (auto simp: on_message_def get_property_Some get_property_None incoming_def)
next
  assume a: "JSON_parse message = Inr v \<and>
       field v (js ''event'') = Some (JString (js ''CASINO_REWARD'')) \<and>
       field v (js ''data'') = Some d \<and> d \<noteq> JNull"
  then have "v \<noteq> JNull" by (auto simp: field_JNull)
  with a show "on_message channel message =
        ([incoming message,
          CallIncreaseAmountWon (field v (js ''to'')) (field d (js ''reward'')),
          Emit (field v (js ''to'')) (field v (js ''event'')) (field v (js ''data''))], None)"
    by (simp add: on_message_def get_property_Some incoming_def io_emit_def
        reserved_event_CASINO_REWARD)
next
  assume a: "JSON_parse message = Inr v \<and> r \<in> set RESERVED_EVENTS \<and>
       field v (js ''event'') = Some (JString (js r))"
  then have n: "v \<noteq> JNull" by (auto simp: field_JNull)
  from a have res: "reserved_event (field v (js ''event'')) = Some r"
    by (simp add: reserved_event_iff)
  with reserved_event_CASINO_REWARD a
  have c: "field v (js ''event'') \<noteq> Some (JString (js ''CASINO_REWARD''))"
    by auto
  from a n res c show "on_message channel message =
        ([incoming message],
         Some (Error ([CHR 0x22] @ r @ [CHR 0x22] @ '' is a reserved event name'')))"
    by (simp add: on_message_def get_property_Some incoming_def io_emit_def)
next
  assume a: "JSON_parse message = Inr v \<and> v \<noteq> JNull \<and>
       field v (js ''event'') \<noteq> Some (JString (js ''CASINO_REWARD'')) \<and>
       (\<forall>r \<in> set RESERVED_EVENTS. field v (js ''event'') \<noteq> Some (JString (js r)))"
  have "reserved_event (field v (js ''event'')) = None"
  proof (cases "reserved_event (field v (js ''event''))")
    case None
    then show ?thesis .
  next
    case (Some x)
    then have "x \<in> set RESERVED_EVENTS \<and> field v (js ''event'') = Some (JString (js x))"
      by (simp add: reserved_event_iff)
    with a show ?thesis by blast
  qed
  with a show "on_message channel message =
        ([incoming message,
          Emit (field v (js ''to'')) (field v (js ''event'')) (field v (js ''data''))], None)"
    by (simp add: on_message_def get_property_Some incoming_def io_emit_def)
qed

theorem on_message_outcomes_witness:
  \<open>snd (on_message (js ''message'') (js ''null'')) = Some TypeError
   \<and> snd (on_message (js ''message'') (js ''{"event":"CASINO_REWARD","to":"u1"}'')) =
       Some TypeError
   \<and> on_message (js ''message'')
       (js ''{"event":"CASINO_REWARD","to":"u1","data":{"reward":10}}'') =
       ([incoming (js ''{"event":"CASINO_REWARD","to":"u1","data":{"reward":10}}''),
         CallIncreaseAmountWon (Some (JString (js ''u1''))) (Some (JNumber (js ''10''))),
         Emit (Some (JString (js ''u1''))) (Some (JString (js ''CASINO_REWARD'')))
           (Some (JObject [(js ''reward'', JNumber (js ''10''))]))], None)
   \<and> on_message (js ''message'') (js ''{"event":"disconnect","to":"u1","data":{}}'') =
       ([incoming (js ''{"event":"disconnect","to":"u1","data":{}}'')],
        Some (Error ''"disconnect" is a reserved event name''))
   \<and> on_message (js ''message'') (js ''{"event":"BET_CREATED","to":"u1","data":{}}'') =
       ([incoming (js ''{"event":"BET_CREATED","to":"u1","data":{}}''),
         Emit (Some (JString (js ''u1''))) (Some (JString (js ''BET_CREATED'')))
           (Some (JObject []))], None)\<close>
proof -
  let ?short = \<open>JObject [(js ''event'', JString (js ''CASINO_REWARD'')), (js ''to'', JString (js ''u1''))]\<close>
  let ?data = \<open>JObject [(js ''reward'', JNumber (js ''10''))]\<close>
  let ?full = \<open>JObject [(js ''event'', JString (js ''CASINO_REWARD'')), (js ''to'', JString (js ''u1'')),
       (js ''data'', ?data)]\<close>
  let ?disc = \<open>JObject [(js ''event'', JString (js ''disconnect'')), (js ''to'', JString (js ''u1'')),
       (js ''data'', JObject [])]\<close>
  let ?bet = \<open>JObject [(js ''event'', JString (js ''BET_CREATED'')), (js ''to'', JString (js ''u1'')),
       (js ''data'', JObject [])]\<close>
  have s1: "field ?short (js ''event'') = Some (JString (js ''CASINO_REWARD''))"
    and s2: "field ?short (js ''data'') = None"
    by (simp_all add: field_def js_def)
  have f1: "field ?full (js ''event'') = Some (JString (js ''CASINO_REWARD''))"
    and f2: "field ?full (js ''data'') = Some ?data"
    and f3: "field ?full (js ''to'') = Some (JString (js ''u1''))"
    and f4: "field ?data (js ''reward'') = Some (JNumber (js ''10''))"
    and f5: "?data \<noteq> JNull"
    by (simp_all add: field_def js_def)
  have d1: "field ?disc (js ''event'') = Some (JString (js ''disconnect''))"
    and d2: "''disconnect'' \<in> set RESERVED_EVENTS"
    by (simp_all add: field_def js_def RESERVED_EVENTS_def)
  have b1: "field ?bet (js ''event'') = Some (JString (js ''BET_CREATED''))"
    and b2: "field ?bet (js ''to'') = Some (JString (js ''u1''))"
    and b3: "field ?bet (js ''data'') = Some (JObject [])"
    and b4: "?bet \<noteq> JNull"
    by (simp_all add: field_def js_def)
  have b5: "field ?bet (js ''event'') \<noteq> Some (JString (js ''CASINO_REWARD''))"
    unfolding b1 by (simp add: js_def)
  have b6: "\<forall>r \<in> set RESERVED_EVENTS. field ?bet (js ''event'') \<noteq> Some (JString (js r))"
    unfolding b1 by (simp add: js_def RESERVED_EVENTS_def)
  from on_message_outcomes [where message = "js ''null''" and channel = "js ''message''"]
    parse_null
  have a: "snd (on_message (js ''message'') (js ''null'')) = Some TypeError"
    by simp
  from on_message_outcomes
        [where message = \<open>js ''{"event":"CASINO_REWARD","to":"u1"}''\<close>
           and channel = "js ''message''" and v = ?short]
    parse_reward_without_data s1 s2
  have b: \<open>snd (on_message (js ''message'') (js ''{"event":"CASINO_REWARD","to":"u1"}'')) =
       Some TypeError\<close>
    by simp
  from on_message_outcomes
        [where message = \<open>js ''{"event":"CASINO_REWARD","to":"u1","data":{"reward":10}}''\<close>
           and channel = "js ''message''" and v = ?full and d = ?data]
    parse_reward f1 f2 f5
  have c: \<open>on_message (js ''message'')
       (js ''{"event":"CASINO_REWARD","to":"u1","data":{"reward":10}}'') =
       ([incoming (js ''{"event":"CASINO_REWARD","to":"u1","data":{"reward":10}}''),
         CallIncreaseAmountWon (field ?full (js ''to'')) (field ?data (js ''reward'')),
         Emit (field ?full (js ''to'')) (field ?full (js ''event'')) (field ?full (js ''data''))],
        None)\<close>
    by blast
  from on_message_outcomes
        [where message = \<open>js ''{"event":"disconnect","to":"u1","data":{}}''\<close>
           and channel = "js ''message''" and v = ?disc and r = "''disconnect''"]
    parse_disconnect d1 d2
  have d: \<open>on_message (js ''message'') (js ''{"event":"disconnect","to":"u1","data":{}}'') =
       ([incoming (js ''{"event":"disconnect","to":"u1","data":{}}'')],
        Some (Error ([CHR 0x22] @ ''disconnect'' @ [CHR 0x22] @ '' is a reserved event name'')))\<close>
    by blast
  from on_message_outcomes
        [where message = \<open>js ''{"event":"BET_CREATED","to":"u1","data":{}}''\<close>
           and channel = "js ''message''" and v = ?bet]
    parse_bet_created b4 b5 b6
  have e: \<open>on_message (js ''message'') (js ''{"event":"BET_CREATED","to":"u1","data":{}}'') =
       ([incoming (js ''{"event":"BET_CREATED","to":"u1","data":{}}''),
         Emit (field ?bet (js ''to'')) (field ?bet (js ''event'')) (field ?bet (js ''data''))],
        None)\<close>
    by blast
  from a b c d e show ?thesis
    by (simp only: f1 f2 f3 f4 b1 b2 b3) simp
qed

end
